theory Spec2Isabelle
  imports Main "HOL-Library.Sublist"
begin

section \<open>Data model (types.ts)\<close>

text \<open>
  The enum \<^verbatim>\<open>DoseStatus\<close> and the interfaces \<^verbatim>\<open>Interaction\<close>, \<^verbatim>\<open>Medicine\<close>,
  \<^verbatim>\<open>Dose\<close>, \<^verbatim>\<open>HistoryEntry\<close> and \<^verbatim>\<open>CareState\<close>. Three interfaces have a field
  \<^verbatim>\<open>id\<close>, and the dose and the history entry share four more names; a record field is a
  global constant, so the fields carry a prefix where they would clash
  (\<open>med_id\<close>, \<open>dose_id\<close>, \<open>hist_id\<close>, \<open>h_medicineName\<close>, ...).
  \<^verbatim>\<open>durationDays: number\<close> is never read by the store; it is kept as an integer.
  The optional field \<^verbatim>\<open>potentialInteractions?\<close> and the nullable
  \<^verbatim>\<open>lastExtractionDate\<close> are options. At run time the first holds whatever the
  property lookup of \<^verbatim>\<open>updateInteractions\<close> returned: an \<^verbatim>\<open>Interaction\<close> of the map
  (\<open>Entry\<close>) or a member that the map object inherits from \<^verbatim>\<open>Object.prototype\<close>
  (\<open>PrototypeMember\<close>, with the name of the member).
\<close>

datatype DoseStatus = PENDING | TAKEN | MISSED

datatype Severity = High | Medium

record Interaction =
  severity :: Severity
  summary :: string
  detail :: string

datatype annotation = Entry Interaction | PrototypeMember string

record Medicine =
  med_id :: string
  name :: string
  dosage :: string
  frequency :: string
  timings :: "string list"
  durationDays :: int
  potentialInteractions :: "annotation option"

record Dose =
  dose_id :: string
  medicineId :: string
  medicineName :: string
  date :: string
  timeSlot :: string
  status :: DoseStatus

record HistoryEntry =
  hist_id :: string
  h_medicineName :: string
  h_timeSlot :: string
  h_date :: string
  timestamp :: string
  h_status :: DoseStatus

record CareState =
  medicines :: "Medicine list"
  doses :: "Dose list"
  history :: "HistoryEntry list"
  remedies :: "string list"
  lastExtractionDate :: "string option"

section \<open>The platform's Date object\<close>

text \<open>
  \<^verbatim>\<open>generateSchedule\<close> reads the clock and does its calendar arithmetic with the
  JavaScript \<^verbatim>\<open>Date\<close> object, which is not code of the store. The three methods it
  calls are parameters of the model: \<open>'d\<close> is the type of a \<^verbatim>\<open>Date\<close> value,
  \<open>getDate\<close> its day of the month, \<open>setDate d n\<close> the date \<open>d\<close> moved to day \<open>n\<close>
  of its month (rolling over into the following months), \<open>toISOString\<close> its
  \<^verbatim>\<open>YYYY-MM-DDTHH:mm:ss.sssZ\<close> rendering. The results on the loops, the store and
  the history hold for all three functions; \<open>js_date\<close> below gives the functions of the
  platform, of which the first two work in local time and the third in UTC.
\<close>

record 'd date_api =
  getDate :: "'d \<Rightarrow> int"
  setDate :: "'d \<Rightarrow> int \<Rightarrow> 'd"
  toISOString :: "'d \<Rightarrow> string"

text \<open>\<^verbatim>\<open>str.split('T')[0]\<close>: the part of the string before its first \<^verbatim>\<open>T\<close>.\<close>

definition split_T_0 :: "string \<Rightarrow> string" where
  "split_T_0 str = takeWhile (\<lambda>c. c \<noteq> CHR ''T'') str"

text \<open>
  The body of the day loop up to \<^verbatim>\<open>dateStr\<close>:
  \<^verbatim>\<open>const date = new Date(today); date.setDate(today.getDate() + i);
  const dateStr = date.toISOString().split('T')[0];\<close>
\<close>

definition dateStr :: "'d date_api \<Rightarrow> 'd \<Rightarrow> nat \<Rightarrow> string" where
  "dateStr api today i =
     split_T_0 (toISOString api (setDate api today (getDate api today + int i)))"

section \<open>The Date object of ECMAScript\<close>

text \<open>
  The three methods as the language standard defines them, from its abstract operations of
  the same names. A time value is a number of milliseconds since 1970-01-01T00:00Z; the
  model covers time values that are not negative and years up to 9999. \<open>year_walk\<close> and
  \<open>month_walk\<close> find the year and the month of a day by subtracting the lengths of the
  years and months before it. A time zone is given by its offset from UTC at a UTC time
  value and at a local time value; \<^verbatim>\<open>getDate\<close> and \<^verbatim>\<open>setDate\<close> read and write the fields of
  the local time, \<^verbatim>\<open>toISOString\<close> renders the fields of the UTC time.
\<close>

definition msPerDay :: int where
  "msPerDay = 86400000"

definition Day :: "int \<Rightarrow> int" where
  "Day t = t div msPerDay"

definition TimeWithinDay :: "int \<Rightarrow> int" where
  "TimeWithinDay t = t mod msPerDay"

definition DaysInYear :: "int \<Rightarrow> int" where
  "DaysInYear y =
     (if y mod 4 \<noteq> 0 then 365 else if y mod 100 \<noteq> 0 then 366
      else if y mod 400 \<noteq> 0 then 365 else 366)"

definition DayFromYear :: "int \<Rightarrow> int" where
  "DayFromYear y =
     365 * (y - 1970) + (y - 1969) div 4 - (y - 1901) div 100 + (y - 1601) div 400"

definition DaysInMonth :: "int \<Rightarrow> int \<Rightarrow> int" where
  "DaysInMonth y m =
     [31, if DaysInYear y = 366 then 29 else 28, 31, 30, 31, 30, 31, 31, 30, 31, 30, 31] ! nat m"

function year_walk :: "int \<Rightarrow> int \<Rightarrow> int \<times> int" where
  "year_walk y d = (if DaysInYear y \<le> d then year_walk (y + 1) (d - DaysInYear y) else (y, d))"
  by pat_completeness auto
termination
  by (relation "measure (\<lambda>(y, d). nat d)") (auto simp: DaysInYear_def)

declare year_walk.simps [simp del]

function month_walk :: "int \<Rightarrow> int \<Rightarrow> int \<Rightarrow> int \<times> int" where
  "month_walk y m d =
     (if m < 11 \<and> DaysInMonth y m \<le> d then month_walk y (m + 1) (d - DaysInMonth y m)
      else (m, d))"
  by pat_completeness auto
termination
  by (relation "measure (\<lambda>(y, m, d). nat (11 - m))") auto

declare month_walk.simps [simp del]

text \<open>
  The year of a time value that is not negative: the walk starts at a year that is not
  after it, since no year has more than 366 days.
\<close>

definition year_and_day :: "int \<Rightarrow> int \<times> int" where
  "year_and_day t =
     (let y0 = 1970 + Day t div 366 in year_walk y0 (Day t - DayFromYear y0))"

definition YearFromTime :: "int \<Rightarrow> int" where
  "YearFromTime t = fst (year_and_day t)"

definition MonthFromTime :: "int \<Rightarrow> int" where
  "MonthFromTime t = fst (month_walk (YearFromTime t) 0 (snd (year_and_day t)))"

definition DateFromTime :: "int \<Rightarrow> int" where
  "DateFromTime t = snd (month_walk (YearFromTime t) 0 (snd (year_and_day t))) + 1"

definition MakeDay :: "int \<Rightarrow> int \<Rightarrow> int \<Rightarrow> int" where
  "MakeDay y m dt = DayFromYear y + sum_list (map (DaysInMonth y) [0..m - 1]) + dt - 1"

definition MakeDate :: "int \<Rightarrow> int \<Rightarrow> int" where
  "MakeDate day time = day * msPerDay + time"

text \<open>
  \<open>utc_offset z t\<close> is the offset of local time at the UTC time value \<open>t\<close>, and
  \<open>local_offset z t\<close> the offset by which the local time value \<open>t\<close> is read.
\<close>

record zone =
  utc_offset :: "int \<Rightarrow> int"
  local_offset :: "int \<Rightarrow> int"

definition LocalTime :: "zone \<Rightarrow> int \<Rightarrow> int" where
  "LocalTime z t = t + utc_offset z t"

definition UTC :: "zone \<Rightarrow> int \<Rightarrow> int" where
  "UTC z t = t - local_offset z t"

text \<open>The last \<open>w\<close> decimal digits of a number that is not negative.\<close>

fun decimal :: "nat \<Rightarrow> int \<Rightarrow> string" where
  "decimal 0 n = []"
| "decimal (Suc w) n = decimal w (n div 10) @ [''0123456789'' ! nat (n mod 10)]"

text \<open>
  \<^verbatim>\<open>Date.prototype.getDate\<close>, \<^verbatim>\<open>setDate\<close> and \<^verbatim>\<open>toISOString\<close>. \<^verbatim>\<open>setDate\<close> keeps the
  year, the month and the time within the day of the local time and replaces the day of
  the month, which may lie past the end of the month.
\<close>

definition js_getDate :: "zone \<Rightarrow> int \<Rightarrow> int" where
  "js_getDate z t = DateFromTime (LocalTime z t)"

definition js_setDate :: "zone \<Rightarrow> int \<Rightarrow> int \<Rightarrow> int" where
  "js_setDate z t dt =
     (let lt = LocalTime z t
      in UTC z (MakeDate (MakeDay (YearFromTime lt) (MonthFromTime lt) dt) (TimeWithinDay lt)))"

definition js_toISOString :: "int \<Rightarrow> string" where
  "js_toISOString t =
     decimal 4 (YearFromTime t) @ ''-'' @ decimal 2 (MonthFromTime t + 1) @ ''-'' @
     decimal 2 (DateFromTime t) @ ''T'' @
     decimal 2 (TimeWithinDay t div 3600000) @ '':'' @
     decimal 2 (TimeWithinDay t div 60000 mod 60) @ '':'' @
     decimal 2 (TimeWithinDay t div 1000 mod 60) @ ''.'' @
     decimal 3 (TimeWithinDay t mod 1000) @ ''Z''"

definition js_date :: "zone \<Rightarrow> int date_api" where
  "js_date z =
     \<lparr>getDate = js_getDate z, setDate = js_setDate z, toISOString = js_toISOString\<rparr>"

text \<open>The time value of a date and a time of day given by their UTC fields.\<close>

definition time_of :: "int \<Rightarrow> int \<Rightarrow> int \<Rightarrow> int \<Rightarrow> int \<Rightarrow> int" where
  "time_of y mo d h mi = MakeDate (MakeDay y (mo - 1) d) (h * 3600000 + mi * 60000)"

text \<open>
  Europe/London and America/New_York in 2024: summer time between the two changes of the
  clock, given as UTC time values for \<open>utc_offset\<close> and as local ones for \<open>local_offset\<close>.
\<close>

definition summer_time :: "int \<Rightarrow> int \<Rightarrow> int \<Rightarrow> int \<Rightarrow> int \<Rightarrow> int" where
  "summer_time start finish summer winter t = (if start \<le> t \<and> t < finish then summer else winter)"

definition london_2024 :: zone where
  "london_2024 =
     \<lparr>utc_offset = summer_time (time_of 2024 3 31 1 0) (time_of 2024 10 27 1 0) 3600000 0,
      local_offset = summer_time (time_of 2024 3 31 2 0) (time_of 2024 10 27 2 0) 3600000 0\<rparr>"

definition new_york_2024 :: zone where
  "new_york_2024 =
     \<lparr>utc_offset =
        summer_time (time_of 2024 3 10 7 0) (time_of 2024 11 3 6 0) (- 14400000) (- 18000000),
      local_offset =
        summer_time (time_of 2024 3 10 3 0) (time_of 2024 11 3 2 0) (- 14400000) (- 18000000)\<rparr>"

section \<open>The store (store.ts)\<close>

text \<open>
  Every action is \<^verbatim>\<open>set((state) => partial)\<close>: zustand merges the returned fields into
  the state, and a callback that returns \<^verbatim>\<open>state\<close> itself leaves it as it is. An action
  is modelled as a function from the state to the merged state. \<open>initialState\<close> is the
  literal the store is created with; what the \<^verbatim>\<open>persist\<close> middleware reads back from
  storage at start-up is not modelled.
\<close>

definition initialState :: CareState where
  "initialState =
     \<lparr>medicines = [], doses = [], history = [], remedies = [], lastExtractionDate = None\<rparr>"

definition addMedicines :: "Medicine list \<Rightarrow> CareState \<Rightarrow> CareState" where
  "addMedicines newMedicines state = state\<lparr>medicines := medicines state @ newMedicines\<rparr>"

definition addRemedy :: "string \<Rightarrow> CareState \<Rightarrow> CareState" where
  "addRemedy nm state =
     state\<lparr>remedies := (if nm \<in> set (remedies state) then remedies state
                         else remedies state @ [nm])\<rparr>"

definition removeRemedy :: "string \<Rightarrow> CareState \<Rightarrow> CareState" where
  "removeRemedy nm state = state\<lparr>remedies := filter (\<lambda>r. r \<noteq> nm) (remedies state)\<rparr>"

text \<open>
  \<^verbatim>\<open>interactions: Record<string, Interaction>\<close> is a JavaScript object: a map from its own
  keys to interactions, with \<^verbatim>\<open>Object.prototype\<close> as its prototype (the callers pass
  \<^verbatim>\<open>{}\<close> or the result of \<^verbatim>\<open>JSON.parse\<close>). The property lookup
  \<^verbatim>\<open>interactions[key]\<close> finds an own key first and then the members of the prototype,
  which are functions or, for \<^verbatim>\<open>__proto__\<close>, the prototype itself; a key found nowhere
  gives \<^verbatim>\<open>undefined\<close>.
\<close>

definition object_prototype_members :: "string list" where
  "object_prototype_members =
     [''constructor'', ''hasOwnProperty'', ''isPrototypeOf'', ''propertyIsEnumerable'',
      ''toLocaleString'', ''toString'', ''valueOf'', ''__proto__'', ''__defineGetter__'',
      ''__defineSetter__'', ''__lookupGetter__'', ''__lookupSetter__'']"

definition property_lookup :: "(string \<rightharpoonup> Interaction) \<Rightarrow> string \<Rightarrow> annotation option" where
  "property_lookup interactions key =
     (case interactions key of
        Some v \<Rightarrow> Some (Entry v)
      | None \<Rightarrow>
          if key \<in> set object_prototype_members then Some (PrototypeMember key) else None)"

text \<open>
  \<^verbatim>\<open>interactions[med.id] || undefined\<close>: an interaction and a member of the prototype are
  objects or functions, none of them falsy, so the result of the lookup is stored as it is.
\<close>

definition updateInteractions :: "(string \<rightharpoonup> Interaction) \<Rightarrow> CareState \<Rightarrow> CareState" where
  "updateInteractions interactions state =
     state\<lparr>medicines :=
       map (\<lambda>med. med\<lparr>potentialInteractions := property_lookup interactions (med_id med)\<rparr>)
         (medicines state)\<rparr>"

text \<open>The template literal \<^verbatim>\<open>`${med.id}-${dateStr}-${slot}`\<close>.\<close>

definition doseId :: "string \<Rightarrow> string \<Rightarrow> string \<Rightarrow> string" where
  "doseId mid ds slot = mid @ ''-'' @ ds @ ''-'' @ slot"

text \<open>The object literal pushed onto \<^verbatim>\<open>newDoses\<close>.\<close>

definition newDose :: "Medicine \<Rightarrow> string \<Rightarrow> string \<Rightarrow> Dose" where
  "newDose med ds slot =
     \<lparr>dose_id = doseId (med_id med) ds slot,
      medicineId = med_id med,
      medicineName = name med,
      date = ds,
      timeSlot = slot,
      status = PENDING\<rparr>"

text \<open>
  The three nested loops of \<^verbatim>\<open>generateSchedule\<close>, innermost first; each threads the
  array \<^verbatim>\<open>newDoses\<close>, to which \<^verbatim>\<open>push\<close> appends.
\<close>

fun slots_forEach :: "Medicine \<Rightarrow> string \<Rightarrow> string list \<Rightarrow> Dose list \<Rightarrow> Dose list" where
  "slots_forEach med ds [] newDoses = newDoses"
| "slots_forEach med ds (slot # slots) newDoses =
     slots_forEach med ds slots (newDoses @ [newDose med ds slot])"

function days_for :: "'d date_api \<Rightarrow> 'd \<Rightarrow> Medicine \<Rightarrow> nat \<Rightarrow> Dose list \<Rightarrow> Dose list" where
  "days_for api today med i newDoses =
     (if i < 10
      then days_for api today med (i + 1)
             (slots_forEach med (dateStr api today i) (timings med) newDoses)
      else newDoses)"
  by pat_completeness auto
termination
  by (relation "measure (\<lambda>(api, today, med, i, newDoses). 10 - i)") auto

declare days_for.simps [simp del]

fun medicines_forEach :: "'d date_api \<Rightarrow> 'd \<Rightarrow> Medicine list \<Rightarrow> Dose list \<Rightarrow> Dose list" where
  "medicines_forEach api today [] newDoses = newDoses"
| "medicines_forEach api today (med # meds) newDoses =
     medicines_forEach api today meds (days_for api today med 0 newDoses)"

text \<open>
  \<open>today\<close> is the first \<^verbatim>\<open>new Date()\<close>, \<open>now\<close> the string
  \<^verbatim>\<open>new Date().toISOString()\<close> read at the end.
\<close>

definition generateSchedule ::
  "'d date_api \<Rightarrow> 'd \<Rightarrow> string \<Rightarrow> Medicine list \<Rightarrow> CareState \<Rightarrow> CareState" where
  "generateSchedule api today now newMedicines state =
     (let newDoses = medicines_forEach api today newMedicines []
      in state\<lparr>medicines := medicines state @ newMedicines,
               doses := doses state @ newDoses,
               lastExtractionDate := Some now\<rparr>)"

text \<open>
  \<open>hid\<close> is the string \<^verbatim>\<open>`hist-${Date.now()}-${Math.random()...}`\<close> and \<open>now\<close> the
  string \<^verbatim>\<open>new Date().toISOString()\<close>, both read from the platform.
\<close>

definition toggleDose ::
  "string \<Rightarrow> string \<Rightarrow> string \<Rightarrow> DoseStatus \<Rightarrow> CareState \<Rightarrow> CareState" where
  "toggleDose hid now doseId' status' state =
     (case find (\<lambda>d. dose_id d = doseId') (doses state) of
        None \<Rightarrow> state
      | Some targetDose \<Rightarrow>
          if status targetDose = status' then state
          else
            let historyEntry =
                  \<lparr>hist_id = hid,
                   h_medicineName = medicineName targetDose,
                   h_timeSlot = timeSlot targetDose,
                   h_date = date targetDose,
                   timestamp = now,
                   h_status = status'\<rparr>
            in state\<lparr>doses := map (\<lambda>d. if dose_id d = doseId' then d\<lparr>status := status'\<rparr> else d)
                                   (doses state),
                     history := take 100 (historyEntry # history state)\<rparr>)"

definition clearAll :: "CareState \<Rightarrow> CareState" where
  "clearAll state =
     state\<lparr>medicines := [], doses := [], history := [], remedies := [],
           lastExtractionDate := None\<rparr>"

section \<open>Sequences of store operations\<close>

text \<open>
  A call of an action together with what it reads from the platform, and the state after
  a sequence of calls.
\<close>

datatype 'd action =
    AddMedicines "Medicine list"
  | AddRemedy string
  | RemoveRemedy string
  | UpdateInteractions "string \<rightharpoonup> Interaction"
  | GenerateSchedule 'd string "Medicine list"
  | ToggleDose string string string DoseStatus
  | ClearAll

fun dispatch :: "'d date_api \<Rightarrow> 'd action \<Rightarrow> CareState \<Rightarrow> CareState" where
  "dispatch api (AddMedicines ms) state = addMedicines ms state"
| "dispatch api (AddRemedy nm) state = addRemedy nm state"
| "dispatch api (RemoveRemedy nm) state = removeRemedy nm state"
| "dispatch api (UpdateInteractions im) state = updateInteractions im state"
| "dispatch api (GenerateSchedule today now ms) state = generateSchedule api today now ms state"
| "dispatch api (ToggleDose hid now did st) state = toggleDose hid now did st state"
| "dispatch api ClearAll state = clearAll state"

fun run :: "'d date_api \<Rightarrow> 'd action list \<Rightarrow> CareState \<Rightarrow> CareState" where
  "run api [] state = state"
| "run api (a # as) state = run api as (dispatch api a state)"

section \<open>The unbounded ledger of the specification\<close>

text \<open>
  The specification's ledger, before truncation: every status change recorded since the
  last reset, newest first. \<open>log_action\<close> follows the specification's words: a call of
  \<^verbatim>\<open>toggleDose\<close> that finds the dose with a status other than the requested one records
  an entry at the front, a reset empties the ledger, every other action leaves it alone.
  \<open>changes\<close> is the ledger after a sequence of actions.
\<close>

fun log_action :: "'d action \<Rightarrow> CareState \<Rightarrow> HistoryEntry list \<Rightarrow> HistoryEntry list" where
  "log_action (ToggleDose hid now did st) state ledger =
     (case find (\<lambda>d. dose_id d = did) (doses state) of
        None \<Rightarrow> ledger
      | Some d \<Rightarrow>
          if status d = st then ledger
          else \<lparr>hist_id = hid, h_medicineName = medicineName d, h_timeSlot = timeSlot d,
                h_date = date d, timestamp = now, h_status = st\<rparr> # ledger)"
| "log_action ClearAll state ledger = []"
| "log_action (AddMedicines ms) state ledger = ledger"
| "log_action (AddRemedy nm) state ledger = ledger"
| "log_action (RemoveRemedy nm) state ledger = ledger"
| "log_action (UpdateInteractions im) state ledger = ledger"
| "log_action (GenerateSchedule today now ms) state ledger = ledger"

fun changes ::
  "'d date_api \<Rightarrow> 'd action list \<Rightarrow> CareState \<Rightarrow> HistoryEntry list \<Rightarrow> HistoryEntry list" where
  "changes api [] state ledger = ledger"
| "changes api (a # as) state ledger =
     changes api as (dispatch api a state) (log_action a state ledger)"

section \<open>A fixed clock and sample data for the worked examples\<close>

text \<open>
  A \<^verbatim>\<open>Date\<close> of January 2024 in UTC, represented by its day of the month (1 to 31), at
  09:30: enough of the platform to run \<^verbatim>\<open>generateSchedule\<close> on the first of the month.
\<close>

definition two_digits :: "nat \<Rightarrow> string" where
  "two_digits n = [''0123456789'' ! (n div 10), ''0123456789'' ! (n mod 10)]"

definition january_2024 :: "int date_api" where
  "january_2024 =
     \<lparr>getDate = (\<lambda>d. d),
      setDate = (\<lambda>d n. n),
      toISOString = (\<lambda>d. ''2024-01-'' @ two_digits (nat d) @ ''T09:30:00.000Z'')\<rparr>"

definition m1 :: Medicine where
  "m1 = \<lparr>med_id = ''m1'', name = ''Amoxicillin'', dosage = ''500mg'',
         frequency = ''Twice daily'', timings = [''Morning'', ''Night''], durationDays = 5,
         potentialInteractions = None\<rparr>"

definition d1 :: Dose where
  "d1 = \<lparr>dose_id = ''d1'', medicineId = ''m1'', medicineName = ''Amoxicillin'',
         date = ''2024-01-01'', timeSlot = ''Morning'', status = PENDING\<rparr>"

definition d2 :: Dose where
  "d2 = \<lparr>dose_id = ''d2'', medicineId = ''m1'', medicineName = ''Amoxicillin'',
         date = ''2024-01-01'', timeSlot = ''Night'', status = MISSED\<rparr>"

definition sample_state :: CareState where
  "sample_state =
     \<lparr>medicines = [m1], doses = [d1, d2], history = [], remedies = [''Ginger''],
      lastExtractionDate = Some ''2024-01-01T09:30:00.000Z''\<rparr>"

definition m3 :: Medicine where
  "m3 = \<lparr>med_id = ''m3'', name = ''Ibuprofen'', dosage = ''200mg'',
         frequency = ''Once daily'', timings = [''Morning''], durationDays = 3,
         potentialInteractions = None\<rparr>"

definition m4 :: Medicine where
  "m4 = \<lparr>med_id = ''constructor'', name = ''Paracetamol'', dosage = ''500mg'',
         frequency = ''Once daily'', timings = [''Night''], durationDays = 2,
         potentialInteractions = None\<rparr>"

definition i1 :: Interaction where
  "i1 = \<lparr>severity = High, summary = ''Bleeding risk'',
         detail = ''Avoid ginger with this drug.''\<rparr>"

text \<open>
  The state after generating the schedule of \<open>m3\<close> twice on 2024-01-01, with the first
  dose marked taken in between.
\<close>

definition regenerated :: CareState where
  "regenerated =
     run january_2024
       [GenerateSchedule 1 ''2024-01-01T09:30:00.000Z'' [m3],
        ToggleDose ''hist-1'' ''2024-01-01T09:31:00.000Z'' ''m3-2024-01-01-Morning'' TAKEN,
        GenerateSchedule 1 ''2024-01-01T09:32:00.000Z'' [m3]]
       initialState"

section \<open>The generated doses\<close>

lemma slots_forEach_eq:
  "slots_forEach med ds slots acc = acc @ map (newDose med ds) slots"
  by (induction slots arbitrary: acc) simp_all

lemma days_for_eq:
  "days_for api today med i acc =
     acc @ concat (map (\<lambda>j. map (newDose med (dateStr api today j)) (timings med)) [i..<10])"
proof (induction api today med i acc rule: days_for.induct)
  case (1 api today med i newDoses)
  show ?case
  proof (cases "i < 10")
    case True
    then have "[i..<10] = i # [i + 1..<10]"
      by (simp add: upt_conv_Cons)
    with True "1.IH" show ?thesis
      by (subst days_for.simps) (simp add: slots_forEach_eq)
  next
    case False
    then show ?thesis
      by (subst days_for.simps) simp
  qed
qed

lemma medicines_forEach_eq:
  "medicines_forEach api today meds acc =
     acc @ concat (map (\<lambda>med.
            concat (map (\<lambda>j. map (newDose med (dateStr api today j)) (timings med)) [0..<10]))
          meds)"
  by (induction meds arbitrary: acc) (simp_all add: days_for_eq)

lemma newDoses_eq:
  "medicines_forEach api today meds [] =
     concat (map (\<lambda>med.
       concat (map (\<lambda>j. map (newDose med (dateStr api today j)) (timings med)) [0..<10]))
     meds)"
  by (simp add: medicines_forEach_eq)

lemma doses_generateSchedule:
  "doses (generateSchedule api today now meds state) =
     doses state @ concat (map (\<lambda>med.
       concat (map (\<lambda>j. map (newDose med (dateStr api today j)) (timings med)) [0..<10]))
     meds)"
  by (simp add: generateSchedule_def newDoses_eq)

lemma length_block:
  "length (concat (map (\<lambda>j. map (f j) slots) [0..<n])) = n * length slots"
  by (induction n) simp_all

lemma length_schedule:
  "length (concat (map (\<lambda>med. concat (map (\<lambda>j. map (f med j) (timings med)) [0..<10])) meds)) =
     sum_list (map (\<lambda>m. 10 * length (timings m)) meds)"
  by (induction meds) (simp_all add: length_block)

lemma newDose_fields:
  "newDose med ds =
     (\<lambda>slot. \<lparr>dose_id = med_id med @ ''-'' @ ds @ ''-'' @ slot, medicineId = med_id med,
              medicineName = name med, date = ds, timeSlot = slot, status = PENDING\<rparr>)"
  by (rule ext) (simp add: newDose_def doseId_def)

lemma newDose_durationDays [simp]:
  "newDose (med\<lparr>durationDays := k\<rparr>) ds = newDose med ds"
  by (rule ext) (simp add: newDose_def)

text \<open>
  What the loops emit, for every list of medicines and every reading of the clock: for each
  medicine in input order, for each day offset 0 to 9, for each slot of the medicine in
  declaration order, one new dose with the medicine's identifier and name, the date string
  computed for the offset, that slot and status pending; 10 times the number of slots for
  every medicine, whatever the values of \<^verbatim>\<open>durationDays\<close>.
\<close>

lemma generateSchedule_emits:
  "doses (generateSchedule api today now M state) =
     doses state @
     concat (map (\<lambda>m. concat (map (\<lambda>i. map (\<lambda>s.
         \<lparr>dose_id = med_id m @ ''-'' @ dateStr api today i @ ''-'' @ s,
          medicineId = med_id m,
          medicineName = name m,
          date = dateStr api today i,
          timeSlot = s,
          status = PENDING\<rparr>) (timings m)) [0..<10])) M)
   \<and> length (doses (generateSchedule api today now M state)) =
       length (doses state) + sum_list (map (\<lambda>m. 10 * length (timings m)) M)
   \<and> doses (generateSchedule api today now (map (\<lambda>m. m\<lparr>durationDays := k m\<rparr>) M) state) =
       doses (generateSchedule api today now M state)"
proof (intro conjI)
  show "doses (generateSchedule api today now M state) =
     doses state @
     concat (map (\<lambda>m. concat (map (\<lambda>i. map (\<lambda>s.
         \<lparr>dose_id = med_id m @ ''-'' @ dateStr api today i @ ''-'' @ s,
          medicineId = med_id m,
          medicineName = name m,
          date = dateStr api today i,
          timeSlot = s,
          status = PENDING\<rparr>) (timings m)) [0..<10])) M)"
    by (simp add: doses_generateSchedule newDose_fields)
  show "length (doses (generateSchedule api today now M state)) =
       length (doses state) + sum_list (map (\<lambda>m. 10 * length (timings m)) M)"
    by (simp add: doses_generateSchedule length_schedule)
  show "doses (generateSchedule api today now (map (\<lambda>m. m\<lparr>durationDays := k m\<rparr>) M) state) =
       doses (generateSchedule api today now M state)"
    by (simp add: doses_generateSchedule comp_def)
qed

text \<open>
  The scenario of the specification: one medicine with the slots Morning and Night, on
  2024-01-01, yields 20 doses, all pending, on the ten dates from 2024-01-01.
\<close>

lemma generateSchedule_emits_scenario:
  "length (doses (generateSchedule january_2024 1 ''2024-01-01T09:30:00.000Z'' [m1] initialState))
     = 20
   \<and> map status
        (doses (generateSchedule january_2024 1 ''2024-01-01T09:30:00.000Z'' [m1] initialState))
     = replicate 20 PENDING
   \<and> remdups (map date
        (doses (generateSchedule january_2024 1 ''2024-01-01T09:30:00.000Z'' [m1] initialState)))
     = [''2024-01-01'', ''2024-01-02'', ''2024-01-03'', ''2024-01-04'', ''2024-01-05'',
        ''2024-01-06'', ''2024-01-07'', ''2024-01-08'', ''2024-01-09'', ''2024-01-10'']"
proof -
  have n: "length (doses (generateSchedule january_2024 1 ''2024-01-01T09:30:00.000Z'' [m1]
      initialState)) = 20"
    using generateSchedule_emits
      [of january_2024 1 "''2024-01-01T09:30:00.000Z''" "[m1]" initialState,
        THEN conjunct2, THEN conjunct1]
    by (simp add: m1_def initialState_def)
  have "map status
        (doses (generateSchedule january_2024 1 ''2024-01-01T09:30:00.000Z'' [m1] initialState))
     = replicate 20 PENDING"
    by code_simp
  moreover have "remdups (map date
        (doses (generateSchedule january_2024 1 ''2024-01-01T09:30:00.000Z'' [m1] initialState)))
     = [''2024-01-01'', ''2024-01-02'', ''2024-01-03'', ''2024-01-04'', ''2024-01-05'',
        ''2024-01-06'', ''2024-01-07'', ''2024-01-08'', ''2024-01-09'', ''2024-01-10'']"
    by code_simp
  ultimately show ?thesis
    using n by (intro conjI)
qed

text \<open>
  C1 says that the dose of day offset \<open>i\<close> carries the date of today plus \<open>i\<close> days. The
  code moves the date in local time and renders it in UTC, so the dates go wrong when the
  offset of the zone changes within the ten days. In London on 2024-03-30 at 00:30, the day
  before the clocks go forward, the offsets 1 and 2 both get 2024-03-31 and the tenth date,
  2024-04-08, is never reached; the second list is the ten dates from today on. In New York
  on 2024-11-02 at 19:30 local time, the day before the clocks go back, 2024-11-03 is left
  out.
\<close>

theorem generateSchedule_dates_at_clock_change:
  "map date (doses (generateSchedule (js_date london_2024) (time_of 2024 3 30 0 30)
       ''2024-03-30T00:30:00.000Z'' [m3] initialState)) =
     [''2024-03-30'', ''2024-03-31'', ''2024-03-31'', ''2024-04-01'', ''2024-04-02'',
      ''2024-04-03'', ''2024-04-04'', ''2024-04-05'', ''2024-04-06'', ''2024-04-07'']
   \<and> map (\<lambda>i. split_T_0 (js_toISOString (MakeDate (Day (time_of 2024 3 30 0 30) + int i) 0)))
       [0..<10] =
     [''2024-03-30'', ''2024-03-31'', ''2024-04-01'', ''2024-04-02'', ''2024-04-03'',
      ''2024-04-04'', ''2024-04-05'', ''2024-04-06'', ''2024-04-07'', ''2024-04-08'']
   \<and> map date (doses (generateSchedule (js_date new_york_2024) (time_of 2024 11 2 23 30)
       ''2024-11-02T23:30:00.000Z'' [m3] initialState)) =
     [''2024-11-02'', ''2024-11-04'', ''2024-11-05'', ''2024-11-06'', ''2024-11-07'',
      ''2024-11-08'', ''2024-11-09'', ''2024-11-10'', ''2024-11-11'', ''2024-11-12'']"
  by code_simp

text \<open>
  C8. \<^verbatim>\<open>generateSchedule\<close> appends and never replaces: the previous medicines and doses
  stay, unchanged, in front of the new ones; the new doses follow grouped by medicine in
  input order, then by day offset ascending, then by slot in declaration order; history and
  remedies are unchanged and \<^verbatim>\<open>lastExtractionDate\<close> is the time read at the end of the
  call; a second call adds its doses behind those of the first.
\<close>

theorem generateSchedule_appends:
  "medicines (generateSchedule api today now M state) = medicines state @ M
   \<and> doses (generateSchedule api today now M state) =
       doses state @
       concat (map (\<lambda>m. concat (map (\<lambda>i. map (\<lambda>s. newDose m (dateStr api today i) s)
                                            (timings m)) [0..<10])) M)
   \<and> history (generateSchedule api today now M state) = history state
   \<and> remedies (generateSchedule api today now M state) = remedies state
   \<and> lastExtractionDate (generateSchedule api today now M state) = Some now
   \<and> doses (generateSchedule api today' now' M' (generateSchedule api today now M state)) =
       doses state @ medicines_forEach api today M [] @ medicines_forEach api today' M' []"
  by (simp add: doses_generateSchedule) (simp add: generateSchedule_def newDoses_eq)

text \<open>
  On the sample state, which holds two doses and one medicine: both stay in front, and the
  three doses of the new medicine on the first three days follow in order of the day.
\<close>

theorem generateSchedule_appends_witness:
  "take 2 (doses (generateSchedule january_2024 1 ''2024-01-01T09:30:00.000Z'' [m3] sample_state))
     = [d1, d2]
   \<and> map dose_id (take 3 (drop 2
        (doses (generateSchedule january_2024 1 ''2024-01-01T09:30:00.000Z'' [m3] sample_state))))
     = [''m3-2024-01-01-Morning'', ''m3-2024-01-02-Morning'', ''m3-2024-01-03-Morning'']
   \<and> medicines (generateSchedule january_2024 1 ''2024-01-01T09:30:00.000Z'' [m3] sample_state)
     = [m1, m3]"
proof -
  have d: "doses sample_state = [d1, d2]" and m: "medicines sample_state = [m1]"
    by (simp_all add: sample_state_def)
  have "map dose_id (take 3
      (concat (map (\<lambda>m. concat (map (\<lambda>i. map (\<lambda>s. newDose m (dateStr january_2024 1 i) s)
                                            (timings m)) [0..<10])) [m3])))
     = [''m3-2024-01-01-Morning'', ''m3-2024-01-02-Morning'', ''m3-2024-01-03-Morning'']"
    by code_simp
  with d m
    generateSchedule_appends
      [of january_2024 1 "''2024-01-01T09:30:00.000Z''" "[m3]" sample_state]
  show ?thesis
    by simp
qed

section \<open>Dose identifiers\<close>

lemma doseId_inj:
  assumes len: "length d = length d'"
    and p1: "\<not> strict_prefix (m @ ''-'') (m' @ ''-'')"
    and p2: "\<not> strict_prefix (m' @ ''-'') (m @ ''-'')"
    and eq: "doseId m d s = doseId m' d' s'"
  shows "m = m' \<and> d = d' \<and> s = s'"
proof -
  from eq have e: "(m @ ''-'') @ (d @ ''-'' @ s) = (m' @ ''-'') @ (d' @ ''-'' @ s')"
    by (simp add: doseId_def)
  have "prefix (m @ ''-'') ((m @ ''-'') @ (d @ ''-'' @ s))"
    by (rule prefixI) simp
  moreover have "prefix (m' @ ''-'') ((m @ ''-'') @ (d @ ''-'' @ s))"
    unfolding e by (rule prefixI) simp
  ultimately have "prefix (m @ ''-'') (m' @ ''-'') \<or> prefix (m' @ ''-'') (m @ ''-'')"
    by (rule prefix_same_cases)
  with p1 p2 have "m @ ''-'' = m' @ ''-''"
    by (auto simp: strict_prefix_def)
  then have m: "m = m'"
    by simp
  with e have "d @ (''-'' @ s) = d' @ (''-'' @ s')"
    by simp
  with len have "d = d' \<and> s = s'"
    by simp
  with m show ?thesis
    by simp
qed

text \<open>
  Two cases in which neither identifier, followed by the separator, is a proper prefix of
  the other: identifiers without a hyphen, and identifiers of the same length.
\<close>

lemma no_hyphen_not_strict_prefix:
  assumes "CHR ''-'' \<notin> set m'"
  shows "\<not> strict_prefix (m @ ''-'') (m' @ ''-'')"
proof
  assume "strict_prefix (m @ ''-'') (m' @ ''-'')"
  then obtain zs where zs: "m' @ ''-'' = (m @ ''-'') @ zs" and "zs \<noteq> []"
    by (auto simp: strict_prefix_def prefix_def)
  then obtain ws where "zs = ws @ ''-''"
    by (cases zs rule: rev_cases) auto
  with zs have "m' = m @ ''-'' @ ws"
    by simp
  with assms show False
    by simp
qed

lemma same_length_not_strict_prefix:
  "length m = length m' \<Longrightarrow> \<not> strict_prefix (m @ ''-'') (m' @ ''-'')"
  by (auto simp: strict_prefix_def prefix_def)

lemma dose_id_newDose:
  "dose_id (newDose med ds slot) =
     doseId (medicineId (newDose med ds slot)) (date (newDose med ds slot))
       (timeSlot (newDose med ds slot))"
  by (simp add: newDose_def)

lemma dose_id_generated:
  "x \<in> set (medicines_forEach api today M []) \<Longrightarrow>
   dose_id x = doseId (medicineId x) (date x) (timeSlot x)"
  by (auto simp: newDoses_eq dose_id_newDose)

text \<open>
  C5, as the code has it. The identifier of a generated dose is the medicine identifier,
  the date and the slot joined by hyphens, so two doses generated for the same medicine
  identifier, date and slot have the same identifier, in one call or in two. Distinct
  triples have distinct identifiers when their dates have the same length (an ISO date
  has ten characters) and neither medicine identifier followed by a hyphen is a proper
  prefix of the other followed by a hyphen.
\<close>

theorem doseId_deterministic:
  "(\<forall>x \<in> set (medicines_forEach api today M []).
      \<forall>y \<in> set (medicines_forEach api' today' M' []).
        medicineId x = medicineId y \<and> date x = date y \<and> timeSlot x = timeSlot y \<longrightarrow>
        dose_id x = dose_id y)
   \<and> (length d = length d' \<and> \<not> strict_prefix (m @ ''-'') (m' @ ''-'')
        \<and> \<not> strict_prefix (m' @ ''-'') (m @ ''-'') \<longrightarrow>
      (doseId m d s = doseId m' d' s' \<longleftrightarrow> m = m' \<and> d = d' \<and> s = s'))"
proof (intro conjI ballI impI)
  fix x y
  assume "x \<in> set (medicines_forEach api today M [])"
    and "y \<in> set (medicines_forEach api' today' M' [])"
    and "medicineId x = medicineId y \<and> date x = date y \<and> timeSlot x = timeSlot y"
  then show "dose_id x = dose_id y"
    by (simp add: dose_id_generated)
next
  assume "length d = length d' \<and> \<not> strict_prefix (m @ ''-'') (m' @ ''-'')
        \<and> \<not> strict_prefix (m' @ ''-'') (m @ ''-'')"
  then show "doseId m d s = doseId m' d' s' \<longleftrightarrow> m = m' \<and> d = d' \<and> s = s'"
    using doseId_inj [of d d' m m' s s'] by blast
qed

theorem doseId_deterministic_witness:
  "newDose m1 ''2024-01-01'' ''Night'' \<in> set (medicines_forEach january_2024 1 [m1] [])
   \<and> newDose m1 ''2024-01-01'' ''Night'' \<in> set (medicines_forEach january_2024 1 [m1, m3] [])
   \<and> length ''2024-01-01'' = length ''2024-01-02''
   \<and> \<not> strict_prefix (''m1'' @ ''-'') (''m3'' @ ''-'')
   \<and> \<not> strict_prefix (''m3'' @ ''-'') (''m1'' @ ''-'')
   \<and> doseId ''m1'' ''2024-01-01'' ''Night'' \<noteq> doseId ''m3'' ''2024-01-02'' ''Night''"
proof -
  have a: "newDose m1 ''2024-01-01'' ''Night'' \<in> set (medicines_forEach january_2024 1 [m1] [])"
    "newDose m1 ''2024-01-01'' ''Night'' \<in> set (medicines_forEach january_2024 1 [m1, m3] [])"
    by code_simp+
  have b: "length ''2024-01-01'' = length ''2024-01-02''
   \<and> \<not> strict_prefix (''m1'' @ ''-'') (''m3'' @ ''-'')
   \<and> \<not> strict_prefix (''m3'' @ ''-'') (''m1'' @ ''-'')"
    by (simp add: strict_prefix_def)
  from a b
    doseId_deterministic [of january_2024 1 "[m1]" january_2024 1 "[m1, m3]"
      "''2024-01-01''" "''2024-01-02''" "''m1''" "''m3''" "''Night''" "''Night''"]
  show ?thesis
    by simp
qed

text \<open>
  Over arbitrary medicine identifiers and slots the identifier is not collision-free: a
  hyphen may belong to either. The medicine \<open>a\<close> with the slot \<open>2024-01-01-z\<close> and the
  medicine \<open>a-2024-01-01\<close> with the slot \<open>z\<close> get the same identifier on 2024-01-01.
\<close>

theorem doseId_collision:
  "(''a'', ''2024-01-01'', ''2024-01-01-z'') \<noteq> (''a-2024-01-01'', ''2024-01-01'', ''z'')
   \<and> doseId ''a'' ''2024-01-01'' ''2024-01-01-z'' = doseId ''a-2024-01-01'' ''2024-01-01'' ''z''"
  by (simp add: doseId_def)

section \<open>Interaction annotations\<close>

lemma map_field_update:
  "(\<And>m v. f (m\<lparr>potentialInteractions := v\<rparr>) = f m) \<Longrightarrow>
   map f (map (\<lambda>med. med\<lparr>potentialInteractions := g med\<rparr>) ms) = map f ms"
  by (induction ms) simp_all

lemma medicines_updateInteractions_nth:
  "i < length (medicines state) \<Longrightarrow>
   medicines (updateInteractions interactions state) ! i =
     (medicines state ! i)
       \<lparr>potentialInteractions := property_lookup interactions (med_id (medicines state ! i))\<rparr>"
  by (simp add: updateInteractions_def)

text \<open>
  C7, as the code has it. \<^verbatim>\<open>updateInteractions\<close> overwrites the annotation of every
  medicine with the result of the property lookup of the medicine's identifier in the map
  object: the entry of the map where the identifier is a key; none where it is not a key
  and does not name a member of \<^verbatim>\<open>Object.prototype\<close>; that member where it is not a
  key and names one. Every other field of every medicine stays, and the empty map clears
  the annotation of every medicine when no identifier names a member of the prototype.
\<close>

theorem updateInteractions_overwrites:
  "(\<forall>i < length (medicines state). \<forall>v.
      interactions (med_id (medicines state ! i)) = Some v \<longrightarrow>
      potentialInteractions (medicines (updateInteractions interactions state) ! i) =
        Some (Entry v))
   \<and> (\<forall>i < length (medicines state).
      interactions (med_id (medicines state ! i)) = None
      \<and> med_id (medicines state ! i) \<notin> set object_prototype_members \<longrightarrow>
      potentialInteractions (medicines (updateInteractions interactions state) ! i) = None)
   \<and> (\<forall>i < length (medicines state).
      interactions (med_id (medicines state ! i)) = None
      \<and> med_id (medicines state ! i) \<in> set object_prototype_members \<longrightarrow>
      potentialInteractions (medicines (updateInteractions interactions state) ! i) =
        Some (PrototypeMember (med_id (medicines state ! i))))
   \<and> ((\<forall>m \<in> set (medicines state). med_id m \<notin> set object_prototype_members) \<longrightarrow>
      map potentialInteractions (medicines (updateInteractions Map.empty state)) =
        replicate (length (medicines state)) None)
   \<and> length (medicines (updateInteractions interactions state)) = length (medicines state)
   \<and> map med_id (medicines (updateInteractions interactions state)) = map med_id (medicines state)
   \<and> map name (medicines (updateInteractions interactions state)) = map name (medicines state)
   \<and> map dosage (medicines (updateInteractions interactions state)) = map dosage (medicines state)
   \<and> map frequency (medicines (updateInteractions interactions state)) =
       map frequency (medicines state)
   \<and> map timings (medicines (updateInteractions interactions state)) = map timings (medicines state)
   \<and> map durationDays (medicines (updateInteractions interactions state)) =
       map durationDays (medicines state)"
proof (intro conjI allI impI)
  fix i v
  assume "i < length (medicines state)" and "interactions (med_id (medicines state ! i)) = Some v"
  then show "potentialInteractions (medicines (updateInteractions interactions state) ! i) =
      Some (Entry v)"
    by (simp add: medicines_updateInteractions_nth property_lookup_def)
next
  fix i
  assume "i < length (medicines state)"
    and "interactions (med_id (medicines state ! i)) = None
      \<and> med_id (medicines state ! i) \<notin> set object_prototype_members"
  then show "potentialInteractions (medicines (updateInteractions interactions state) ! i) = None"
    by (simp add: medicines_updateInteractions_nth property_lookup_def)
next
  fix i
  assume "i < length (medicines state)"
    and "interactions (med_id (medicines state ! i)) = None
      \<and> med_id (medicines state ! i) \<in> set object_prototype_members"
  then show "potentialInteractions (medicines (updateInteractions interactions state) ! i) =
      Some (PrototypeMember (med_id (medicines state ! i)))"
    by (simp add: medicines_updateInteractions_nth property_lookup_def)
next
  assume a: "\<forall>m \<in> set (medicines state). med_id m \<notin> set object_prototype_members"
  have "map (\<lambda>m. property_lookup Map.empty (med_id m)) ms = replicate (length ms) None"
    if "\<forall>m \<in> set ms. med_id m \<notin> set object_prototype_members" for ms :: "Medicine list"
    using that by (induction ms) (simp_all add: property_lookup_def)
  from this [OF a]
  show "map potentialInteractions (medicines (updateInteractions Map.empty state)) =
      replicate (length (medicines state)) None"
    by (simp add: updateInteractions_def comp_def)
qed (simp_all add: updateInteractions_def map_field_update)

text \<open>
  A state with an annotated and a plain medicine: a map with a key for the second only
  annotates the second and clears the first, and the empty map clears both.
\<close>

theorem updateInteractions_overwrites_witness:
  "potentialInteractions
     (medicines (updateInteractions [''m3'' \<mapsto> i1]
        (sample_state\<lparr>medicines := [m1\<lparr>potentialInteractions := Some (Entry i1)\<rparr>, m3]\<rparr>)) ! 0)
     = None
   \<and> potentialInteractions
     (medicines (updateInteractions [''m3'' \<mapsto> i1]
        (sample_state\<lparr>medicines := [m1\<lparr>potentialInteractions := Some (Entry i1)\<rparr>, m3]\<rparr>)) ! 1)
     = Some (Entry i1)
   \<and> map potentialInteractions
     (medicines (updateInteractions Map.empty
        (sample_state\<lparr>medicines := [m1\<lparr>potentialInteractions := Some (Entry i1)\<rparr>, m3]\<rparr>)))
     = [None, None]
   \<and> map name
     (medicines (updateInteractions [''m3'' \<mapsto> i1]
        (sample_state\<lparr>medicines := [m1\<lparr>potentialInteractions := Some (Entry i1)\<rparr>, m3]\<rparr>)))
     = [''Amoxicillin'', ''Ibuprofen'']"
proof -
  let ?st = "sample_state\<lparr>medicines := [m1\<lparr>potentialInteractions := Some (Entry i1)\<rparr>, m3]\<rparr>"
  have ids: "\<forall>m \<in> set (medicines ?st). med_id m \<notin> set object_prototype_members"
    by (simp add: m1_def m3_def object_prototype_members_def)
  have l: "length (medicines ?st) = 2"
    by simp
  from updateInteractions_overwrites [of ?st "[''m3'' \<mapsto> i1]"]
    updateInteractions_overwrites [of ?st Map.empty] ids
  show ?thesis
    by (simp add: m1_def m3_def object_prototype_members_def numeral_2_eq_2 less_Suc_eq)
qed

text \<open>
  The map is not the whole lookup. A medicine whose identifier is \<open>constructor\<close> is in no
  map, and \<^verbatim>\<open>updateInteractions({})\<close> does not clear its annotation: the lookup finds the
  member of the prototype, which is stored.
\<close>

theorem updateInteractions_prototype_counterexample:
  "Map.empty (med_id m4) = (None :: Interaction option)
   \<and> map potentialInteractions
        (medicines (updateInteractions Map.empty (addMedicines [m4] initialState))) =
      [Some (PrototypeMember ''constructor'')]"
  by (simp add: updateInteractions_def addMedicines_def initialState_def m4_def
      property_lookup_def object_prototype_members_def)

section \<open>Dose transitions\<close>

lemma toggleDose_absent:
  "find (\<lambda>d. dose_id d = did) (doses state) = None \<Longrightarrow> toggleDose hid now did s state = state"
  by (simp add: toggleDose_def)

lemma toggleDose_same:
  "find (\<lambda>d. dose_id d = did) (doses state) = Some t \<Longrightarrow> status t = s \<Longrightarrow>
   toggleDose hid now did s state = state"
  by (simp add: toggleDose_def)

lemma toggleDose_change:
  "find (\<lambda>d. dose_id d = did) (doses state) = Some t \<Longrightarrow> status t \<noteq> s \<Longrightarrow>
   toggleDose hid now did s state =
     state\<lparr>doses := map (\<lambda>d. if dose_id d = did then d\<lparr>status := s\<rparr> else d) (doses state),
           history := take 100 (\<lparr>hist_id = hid, h_medicineName = medicineName t,
                                 h_timeSlot = timeSlot t, h_date = date t, timestamp = now,
                                 h_status = s\<rparr> # history state)\<rparr>"
  by (simp add: toggleDose_def)

lemma toggleDose_cases:
  "toggleDose hid now did s state = state \<or>
   (\<exists>e. toggleDose hid now did s state =
     state\<lparr>doses := map (\<lambda>d. if dose_id d = did then d\<lparr>status := s\<rparr> else d) (doses state),
           history := take 100 (e # history state)\<rparr>)"
  by (cases "find (\<lambda>d. dose_id d = did) (doses state)")
     (auto simp: toggleDose_def Let_def)

lemma find_None_image: "find (\<lambda>d. f d = k) xs = None \<longleftrightarrow> k \<notin> f ` set xs"
  by (auto simp: find_None_iff)

lemma find_map_status:
  "find (\<lambda>d. dose_id d = did) xs = Some t \<Longrightarrow>
   find (\<lambda>d. dose_id d = did) (map (\<lambda>d. if dose_id d = did then d\<lparr>status := s\<rparr> else d) xs) =
     Some (t\<lparr>status := s\<rparr>)"
  by (induction xs) (auto split: if_splits)

lemma status_of_updated:
  "dose_id (if dose_id x = did then x\<lparr>status := s\<rparr> else x) = did \<Longrightarrow>
   status (if dose_id x = did then x\<lparr>status := s\<rparr> else x) = s"
  by (cases "dose_id x = did") simp_all

lemma status_after_map:
  assumes "d \<in> set (map (\<lambda>x. if dose_id x = did then x\<lparr>status := s\<rparr> else x) xs)"
    and "dose_id d = did"
  shows "status d = s"
proof -
  from assms(1) have "d \<in> (\<lambda>x. if dose_id x = did then x\<lparr>status := s\<rparr> else x) ` set xs"
    by (simp only: set_map)
  then obtain x where d: "d = (if dose_id x = did then x\<lparr>status := s\<rparr> else x)"
    by (elim imageE)
  from assms(2) show ?thesis
    unfolding d by (rule status_of_updated)
qed

lemma find_distinct:
  "distinct (map f xs) \<Longrightarrow> d \<in> set xs \<Longrightarrow> find (\<lambda>x. f x = f d) xs = Some d"
  by (induction xs) (auto simp: image_iff)

text \<open>
  C2, as the code has it. When the lookup of \<open>did\<close> finds a dose, which is the first dose
  of the collection with that identifier and the only one when identifiers are unique, and
  the status of that dose differs from the requested one, \<^verbatim>\<open>toggleDose\<close> gives the
  requested status to that dose and to every dose with the same identifier, and puts in
  front of the history one new entry with the medicine name, slot and date of the dose found
  and the requested status, keeping the first 100; medicines, remedies and
  \<^verbatim>\<open>lastExtractionDate\<close> are those of the old state.
\<close>

theorem toggleDose_transition:
  assumes "find (\<lambda>d. dose_id d = did) (doses state) = Some t" and "status t \<noteq> s"
  shows "find (\<lambda>d. dose_id d = did) (doses (toggleDose hid now did s state)) = Some (t\<lparr>status := s\<rparr>)
    \<and> (\<forall>d \<in> set (doses (toggleDose hid now did s state)). dose_id d = did \<longrightarrow> status d = s)
    \<and> history (toggleDose hid now did s state) =
        take 100 (\<lparr>hist_id = hid, h_medicineName = medicineName t, h_timeSlot = timeSlot t,
                   h_date = date t, timestamp = now, h_status = s\<rparr> # history state)
    \<and> hd (history (toggleDose hid now did s state)) =
        \<lparr>hist_id = hid, h_medicineName = medicineName t, h_timeSlot = timeSlot t,
         h_date = date t, timestamp = now, h_status = s\<rparr>
    \<and> medicines (toggleDose hid now did s state) = medicines state
    \<and> remedies (toggleDose hid now did s state) = remedies state
    \<and> lastExtractionDate (toggleDose hid now did s state) = lastExtractionDate state"
proof -
  let ?st = "toggleDose hid now did s state"
  note c = toggleDose_change [OF assms, of hid now]
  have ds: "doses ?st = map (\<lambda>d. if dose_id d = did then d\<lparr>status := s\<rparr> else d) (doses state)"
    by (simp add: c)
  have 1: "find (\<lambda>d. dose_id d = did) (doses ?st) = Some (t\<lparr>status := s\<rparr>)"
    unfolding ds using assms(1) by (rule find_map_status)
  have 2: "\<forall>d \<in> set (doses ?st). dose_id d = did \<longrightarrow> status d = s"
  proof (intro ballI impI)
    fix d assume "d \<in> set (doses ?st)" and "dose_id d = did"
    then show "status d = s" unfolding ds by (rule status_after_map)
  qed
  have 3: "history ?st =
        take 100 (\<lparr>hist_id = hid, h_medicineName = medicineName t, h_timeSlot = timeSlot t,
                   h_date = date t, timestamp = now, h_status = s\<rparr> # history state)"
    by (simp add: c)
  have 4: "hd (history ?st) =
        \<lparr>hist_id = hid, h_medicineName = medicineName t, h_timeSlot = timeSlot t,
         h_date = date t, timestamp = now, h_status = s\<rparr>"
    unfolding 3 by simp
  have 5: "medicines ?st = medicines state" "remedies ?st = remedies state"
    "lastExtractionDate ?st = lastExtractionDate state"
    by (simp_all add: c)
  show ?thesis by (intro conjI 1 2 3 4 5)
qed

text \<open>The scenario of the specification: the pending dose \<open>d1\<close> is marked taken.\<close>

theorem toggleDose_transition_witness:
  "find (\<lambda>d. dose_id d = ''d1'') (doses sample_state) = Some d1 \<and> status d1 \<noteq> TAKEN
   \<and> doses (toggleDose ''hist-1'' ''2024-01-01T09:31:00.000Z'' ''d1'' TAKEN sample_state) =
        [d1\<lparr>status := TAKEN\<rparr>, d2]
   \<and> history (toggleDose ''hist-1'' ''2024-01-01T09:31:00.000Z'' ''d1'' TAKEN sample_state) =
        [\<lparr>hist_id = ''hist-1'', h_medicineName = ''Amoxicillin'', h_timeSlot = ''Morning'',
          h_date = ''2024-01-01'', timestamp = ''2024-01-01T09:31:00.000Z'', h_status = TAKEN\<rparr>]"
proof -
  have f: "find (\<lambda>d. dose_id d = ''d1'') (doses sample_state) = Some d1"
    by (simp add: sample_state_def d1_def d2_def)
  have s: "status d1 \<noteq> TAKEN"
    by (simp add: d1_def)
  have d: "doses (toggleDose ''hist-1'' ''2024-01-01T09:31:00.000Z'' ''d1'' TAKEN sample_state) =
        [d1\<lparr>status := TAKEN\<rparr>, d2]"
    by (simp add: toggleDose_def sample_state_def d1_def d2_def)
  from toggleDose_transition [OF f s, of "''hist-1''" "''2024-01-01T09:31:00.000Z''"] f s d
  show ?thesis
    by (simp add: sample_state_def d1_def)
qed

text \<open>
  A dose with the identifier and a status other than the requested one is not enough.
  After generating the schedule of the same medicine twice on one day, with the first
  dose marked taken in between, the collection holds the identifier twice: at index 0
  taken, at index 10 pending. Asking for taken then changes nothing: the dose at index 10
  stays pending and the history gets no entry.
\<close>

theorem toggleDose_transition_counterexample:
  "length (doses regenerated) = 20
   \<and> dose_id (doses regenerated ! 10) = ''m3-2024-01-01-Morning''
   \<and> status (doses regenerated ! 10) = PENDING
   \<and> toggleDose ''hist-2'' ''2024-01-01T09:33:00.000Z'' ''m3-2024-01-01-Morning'' TAKEN
         regenerated = regenerated"
  by code_simp

text \<open>
  C4, as the code has it. \<^verbatim>\<open>toggleDose\<close> with the status that the dose found by the
  lookup already has changes nothing. The dose found is the first with the identifier, so
  in a state whose dose identifiers are pairwise distinct this holds for every dose of the
  state, asked for its own status.
\<close>

theorem toggleDose_same_status:
  "(find (\<lambda>d. dose_id d = did) (doses state) = Some t \<and> status t = s \<longrightarrow>
      toggleDose hid now did s state = state)
   \<and> (distinct (map dose_id (doses state)) \<and> d \<in> set (doses state) \<longrightarrow>
      toggleDose hid now (dose_id d) (status d) state = state)"
  by (auto simp: toggleDose_same dest: find_distinct [where f = dose_id])

text \<open>The scenario of the specification, on the pending \<open>d1\<close> and the missed \<open>d2\<close>.\<close>

theorem toggleDose_same_status_witness:
  "find (\<lambda>d. dose_id d = ''d1'') (doses sample_state) = Some d1 \<and> status d1 = PENDING
   \<and> toggleDose ''hist-1'' ''2024-01-01T09:31:00.000Z'' ''d1'' PENDING sample_state = sample_state
   \<and> distinct (map dose_id (doses sample_state)) \<and> d2 \<in> set (doses sample_state)
   \<and> toggleDose ''hist-1'' ''2024-01-01T09:31:00.000Z'' (dose_id d2) (status d2) sample_state =
        sample_state"
proof -
  have f: "find (\<lambda>d. dose_id d = ''d1'') (doses sample_state) = Some d1 \<and> status d1 = PENDING"
    by (simp add: sample_state_def d1_def d2_def)
  have g: "distinct (map dose_id (doses sample_state)) \<and> d2 \<in> set (doses sample_state)"
    by (simp add: sample_state_def d1_def d2_def)
  from f g
    toggleDose_same_status [of "''d1''" sample_state d1 PENDING "''hist-1''"
      "''2024-01-01T09:31:00.000Z''" d2]
  show ?thesis
    by blast
qed

text \<open>
  In the state with the identifier twice, the dose at index 10 is pending, and asking for
  pending under its identifier is not a no-op: the lookup finds the taken dose at index 0,
  which becomes pending, and the history grows by one entry.
\<close>

theorem toggleDose_same_status_counterexample:
  "length (doses regenerated) = 20
   \<and> dose_id (doses regenerated ! 10) = ''m3-2024-01-01-Morning''
   \<and> status (doses regenerated ! 10) = PENDING
   \<and> status (doses regenerated ! 0) = TAKEN
   \<and> status (doses (toggleDose ''hist-2'' ''2024-01-01T09:33:00.000Z''
         ''m3-2024-01-01-Morning'' PENDING regenerated) ! 0) = PENDING
   \<and> length (history regenerated) = 1
   \<and> length (history (toggleDose ''hist-2'' ''2024-01-01T09:33:00.000Z''
         ''m3-2024-01-01-Morning'' PENDING regenerated)) = 2"
  by code_simp

text \<open>
  C6. When no dose of the state has the identifier, \<^verbatim>\<open>toggleDose\<close> returns the state as
  it is, for every requested status: doses, history, medicines, remedies and
  \<^verbatim>\<open>lastExtractionDate\<close>. The model has no error value because this path raises none.
\<close>

theorem toggleDose_unknown_id:
  "did \<notin> dose_id ` set (doses state) \<Longrightarrow> toggleDose hid now did s state = state"
  by (simp add: toggleDose_absent find_None_image)

theorem toggleDose_unknown_id_witness:
  "''d9'' \<notin> dose_id ` set (doses sample_state)
   \<and> toggleDose ''hist-1'' ''2024-01-01T09:31:00.000Z'' ''d9'' TAKEN sample_state = sample_state"
proof -
  have a: "''d9'' \<notin> dose_id ` set (doses sample_state)"
    by (simp add: sample_state_def d1_def d2_def)
  from a toggleDose_unknown_id [OF a] show ?thesis
    by (intro conjI)
qed

text \<open>
  C10. Whatever path \<^verbatim>\<open>toggleDose\<close> takes, medicines, remedies and
  \<^verbatim>\<open>lastExtractionDate\<close> are unchanged, every dose keeps its identifier, medicine
  identifier, medicine name, date and slot at its position, and every dose whose
  identifier is not the one named in the call is unchanged altogether.
\<close>

theorem toggleDose_frame:
  "medicines (toggleDose hid now did s state) = medicines state
   \<and> remedies (toggleDose hid now did s state) = remedies state
   \<and> lastExtractionDate (toggleDose hid now did s state) = lastExtractionDate state
   \<and> map dose_id (doses (toggleDose hid now did s state)) = map dose_id (doses state)
   \<and> map medicineId (doses (toggleDose hid now did s state)) = map medicineId (doses state)
   \<and> map medicineName (doses (toggleDose hid now did s state)) = map medicineName (doses state)
   \<and> map date (doses (toggleDose hid now did s state)) = map date (doses state)
   \<and> map timeSlot (doses (toggleDose hid now did s state)) = map timeSlot (doses state)
   \<and> (\<forall>i < length (doses state). dose_id (doses state ! i) \<noteq> did \<longrightarrow>
        doses (toggleDose hid now did s state) ! i = doses state ! i)"
proof -
  have m: "map f (map (\<lambda>d. if dose_id d = did then d\<lparr>status := s\<rparr> else d) xs) = map f xs"
    if "\<And>d. f (d\<lparr>status := s\<rparr>) = f d" for f :: "Dose \<Rightarrow> string" and xs
    using that by (induction xs) simp_all
  from toggleDose_cases [of hid now did s state] show ?thesis
  proof (elim disjE exE)
    assume "toggleDose hid now did s state = state"
    then show ?thesis by simp
  next
    fix e
    assume "toggleDose hid now did s state =
      state\<lparr>doses := map (\<lambda>d. if dose_id d = did then d\<lparr>status := s\<rparr> else d) (doses state),
            history := take 100 (e # history state)\<rparr>"
    then show ?thesis by (simp add: m)
  qed
qed

theorem toggleDose_frame_witness:
  "(1::nat) < length (doses sample_state) \<and> dose_id (doses sample_state ! 1) \<noteq> ''d1''
   \<and> doses (toggleDose ''hist-1'' ''2024-01-01T09:31:00.000Z'' ''d1'' TAKEN sample_state) ! 1 = d2
   \<and> medicines (toggleDose ''hist-1'' ''2024-01-01T09:31:00.000Z'' ''d1'' TAKEN sample_state) = [m1]
   \<and> remedies (toggleDose ''hist-1'' ''2024-01-01T09:31:00.000Z'' ''d1'' TAKEN sample_state) =
        [''Ginger'']"
proof -
  have a: "(1::nat) < length (doses sample_state) \<and> dose_id (doses sample_state ! 1) \<noteq> ''d1''"
    by (simp add: sample_state_def d1_def d2_def)
  have b: "doses sample_state ! 1 = d2" "medicines sample_state = [m1]"
    "remedies sample_state = [''Ginger'']"
    by (simp_all add: sample_state_def)
  from a b
    toggleDose_frame [of "''hist-1''" "''2024-01-01T09:31:00.000Z''" "''d1''" TAKEN sample_state]
  show ?thesis
    by simp
qed

section \<open>The bounded history\<close>

lemma take_cons_take: "take n (e # take n xs) = take n (e # xs)"
  by (cases n) simp_all

lemma history_log_action:
  assumes "history state = take 100 ledger"
  shows "history (dispatch api a state) = take 100 (log_action a state ledger)"
proof (cases a)
  case (ToggleDose hid now did st)
  show ?thesis
  proof (cases "find (\<lambda>d. dose_id d = did) (doses state)")
    case None
    with ToggleDose assms show ?thesis
      by (simp add: toggleDose_absent)
  next
    case (Some t)
    show ?thesis
    proof (cases "status t = st")
      case True
      with ToggleDose Some assms show ?thesis
        by (simp add: toggleDose_same)
    next
      case False
      with ToggleDose Some assms show ?thesis
        by (simp add: toggleDose_change take_cons_take)
    qed
  qed
qed (use assms in \<open>simp_all add: addMedicines_def addRemedy_def removeRemedy_def
      updateInteractions_def generateSchedule_def clearAll_def\<close>)

lemma history_run:
  "history state = take 100 ledger \<Longrightarrow>
   history (run api as state) = take 100 (changes api as state ledger)"
proof (induction as arbitrary: state ledger)
  case Nil
  then show ?case by simp
next
  case (Cons a as)
  from Cons.prems have "history (dispatch api a state) = take 100 (log_action a state ledger)"
    by (rule history_log_action)
  then show ?case
    by (simp add: Cons.IH)
qed

text \<open>
  The ledger is an honest record of the status changes: a call of \<^verbatim>\<open>toggleDose\<close> adds an
  entry exactly when it changes the doses, and without a reset the ledger only grows at
  the front.
\<close>

lemma toggleDose_changes_doses:
  assumes "find (\<lambda>d. dose_id d = did) (doses state) = Some t" and "status t \<noteq> s"
  shows "doses (toggleDose hid now did s state) \<noteq> doses state"
proof
  assume eq: "doses (toggleDose hid now did s state) = doses state"
  from assms(1) have t: "t \<in> set (doses state)" and i: "dose_id t = did"
    by (auto simp: find_Some_iff)
  have "doses (toggleDose hid now did s state) =
      map (\<lambda>d. if dose_id d = did then d\<lparr>status := s\<rparr> else d) (doses state)"
    by (simp add: toggleDose_change [OF assms])
  with eq t have "t \<in> set (map (\<lambda>d. if dose_id d = did then d\<lparr>status := s\<rparr> else d) (doses state))"
    by simp
  from this i have "status t = s"
    by (rule status_after_map)
  with assms(2) show False
    by simp
qed

lemma log_action_records_changes:
  "log_action (ToggleDose hid now did s) state ledger \<noteq> ledger \<longleftrightarrow>
   doses (toggleDose hid now did s state) \<noteq> doses state"
proof (cases "find (\<lambda>d. dose_id d = did) (doses state)")
  case None
  then show ?thesis
    by (simp add: toggleDose_absent)
next
  case (Some t)
  show ?thesis
  proof (cases "status t = s")
    case True
    with Some show ?thesis
      by (simp add: toggleDose_same)
  next
    case False
    with Some toggleDose_changes_doses [OF Some False, of hid now] show ?thesis
      by simp
  qed
qed

lemma log_action_grows:
  "a \<noteq> ClearAll \<Longrightarrow>
   log_action a state ledger = ledger \<or> (\<exists>e. log_action a state ledger = e # ledger)"
  by (cases a) (simp_all split: option.split)

lemma changes_grows:
  "ClearAll \<notin> set as \<Longrightarrow> \<exists>new. changes api as state ledger = new @ ledger"
proof (induction as arbitrary: state ledger)
  case Nil
  then show ?case by simp
next
  case (Cons a as)
  then have a: "a \<noteq> ClearAll" and as: "ClearAll \<notin> set as"
    by auto
  from Cons.IH [OF as] obtain new where
    n: "changes api as (dispatch api a state) (log_action a state ledger) =
        new @ log_action a state ledger"
    by blast
  from log_action_grows [OF a, of state ledger] show ?case
  proof (elim disjE exE)
    assume "log_action a state ledger = ledger"
    with n show ?thesis by simp
  next
    fix e assume "log_action a state ledger = e # ledger"
    with n have "changes api (a # as) state ledger = (new @ [e]) @ ledger"
      by simp
    then show ?thesis by blast
  qed
qed

text \<open>
  C3. In every state reached from the initial state by a sequence of store operations the
  history has at most 100 entries. It is the first 100 entries of the ledger of all status
  changes since the last reset, newest first: each change goes to the front and the oldest
  entry leaves once there are more than 100, so the length is 100 as soon as the ledger
  has that many.
\<close>

theorem history_bounded:
  "length (history (run api as initialState)) \<le> 100
   \<and> history (run api as initialState) = take 100 (changes api as initialState [])
   \<and> length (history (run api as initialState)) =
       min 100 (length (changes api as initialState []))"
proof -
  have "history initialState = take 100 []"
    by (simp add: initialState_def)
  then have h: "history (run api as initialState) = take 100 (changes api as initialState [])"
    by (rule history_run)
  show ?thesis
    unfolding h by simp
qed

text \<open>
  A short run: of three requests on one dose the second repeats the status and records
  nothing, so the history holds the third change in front of the first.
\<close>

theorem history_bounded_witness:
  "map h_status (history (run january_2024
      [GenerateSchedule 1 ''2024-01-01T09:30:00.000Z'' [m3],
       ToggleDose ''hist-1'' ''2024-01-01T09:31:00.000Z'' ''m3-2024-01-01-Morning'' TAKEN,
       ToggleDose ''hist-2'' ''2024-01-01T09:32:00.000Z'' ''m3-2024-01-01-Morning'' TAKEN,
       ToggleDose ''hist-3'' ''2024-01-01T09:33:00.000Z'' ''m3-2024-01-01-Morning'' MISSED]
      initialState)) = [MISSED, TAKEN]"
proof -
  have "map h_status (take 100 (changes january_2024
      [GenerateSchedule 1 ''2024-01-01T09:30:00.000Z'' [m3],
       ToggleDose ''hist-1'' ''2024-01-01T09:31:00.000Z'' ''m3-2024-01-01-Morning'' TAKEN,
       ToggleDose ''hist-2'' ''2024-01-01T09:32:00.000Z'' ''m3-2024-01-01-Morning'' TAKEN,
       ToggleDose ''hist-3'' ''2024-01-01T09:33:00.000Z'' ''m3-2024-01-01-Morning'' MISSED]
      initialState [])) = [MISSED, TAKEN]"
    by code_simp
  with history_bounded [of january_2024
      "[GenerateSchedule 1 ''2024-01-01T09:30:00.000Z'' [m3],
       ToggleDose ''hist-1'' ''2024-01-01T09:31:00.000Z'' ''m3-2024-01-01-Morning'' TAKEN,
       ToggleDose ''hist-2'' ''2024-01-01T09:32:00.000Z'' ''m3-2024-01-01-Morning'' TAKEN,
       ToggleDose ''hist-3'' ''2024-01-01T09:33:00.000Z'' ''m3-2024-01-01-Morning'' MISSED]"]
  show ?thesis
    by simp
qed

section \<open>Remedies\<close>

lemma distinct_remedies_dispatch:
  "distinct (remedies state) \<Longrightarrow> distinct (remedies (dispatch api a state))"
proof (cases a)
  case (ToggleDose hid now did st)
  assume "distinct (remedies state)"
  with ToggleDose toggleDose_cases [of hid now did st state] show ?thesis
    by (elim disjE exE) simp_all
qed (simp_all add: addMedicines_def addRemedy_def removeRemedy_def
      updateInteractions_def generateSchedule_def clearAll_def)

lemma distinct_remedies_run:
  "distinct (remedies state) \<Longrightarrow> distinct (remedies (run api as state))"
  by (induction as arbitrary: state) (simp_all add: distinct_remedies_dispatch)

lemma count_list_filter_other:
  "r \<noteq> nm \<Longrightarrow> count_list (filter (\<lambda>x. x \<noteq> nm) xs) r = count_list xs r"
  by (induction xs) simp_all

lemma count_list_distinct: "distinct xs \<Longrightarrow> x \<in> set xs \<Longrightarrow> count_list xs x = 1"
  by (induction xs) (auto simp: count_list_0_iff)

text \<open>
  C9. In every state reached from the initial state the remedy names are pairwise
  distinct, compared as strings. \<^verbatim>\<open>addRemedy\<close> changes nothing when the name is present,
  so after adding a name twice it occurs once. \<^verbatim>\<open>removeRemedy\<close> leaves no occurrence of
  the name, keeps every other name as often as before, and keeps the order of what stays.
\<close>

theorem remedies_unique:
  "distinct (remedies (run api as initialState))
   \<and> (nm \<in> set (remedies state) \<longrightarrow> addRemedy nm state = state)
   \<and> count_list (remedies (addRemedy nm (addRemedy nm (run api as initialState)))) nm = 1
   \<and> nm \<notin> set (remedies (removeRemedy nm state))
   \<and> (\<forall>r. r \<noteq> nm \<longrightarrow>
        count_list (remedies (removeRemedy nm state)) r = count_list (remedies state) r)
   \<and> subseq (remedies (removeRemedy nm state)) (remedies state)"
proof -
  have d: "distinct (remedies (run api as initialState))"
    by (rule distinct_remedies_run) (simp add: initialState_def)
  have "distinct (remedies (addRemedy nm (run api as initialState)))"
    using d by (simp add: addRemedy_def)
  moreover have "nm \<in> set (remedies (addRemedy nm (run api as initialState)))"
    by (simp add: addRemedy_def)
  ultimately have c: "count_list (remedies (addRemedy nm (run api as initialState))) nm = 1"
    by (rule count_list_distinct)
  have twice: "addRemedy nm (addRemedy nm s) = addRemedy nm s" for s
    by (simp add: addRemedy_def)
  show ?thesis
    using d c by (simp add: twice) (simp add: addRemedy_def removeRemedy_def count_list_filter_other)
qed

theorem remedies_unique_witness:
  "''Ginger'' \<in> set (remedies sample_state)
   \<and> addRemedy ''Ginger'' sample_state = sample_state
   \<and> remedies (addRemedy ''Ginger'' (addRemedy ''Ginger'' initialState)) = [''Ginger'']
   \<and> ''Garlic'' \<noteq> ''Ginger''
   \<and> count_list (remedies (removeRemedy ''Ginger'' sample_state)) ''Garlic'' =
        count_list (remedies sample_state) ''Garlic''"
proof -
  have a: "''Ginger'' \<in> set (remedies sample_state)" "''Garlic'' \<noteq> ''Ginger''"
    by (simp_all add: sample_state_def)
  have b: "remedies (addRemedy ''Ginger'' (addRemedy ''Ginger'' initialState)) = [''Ginger'']"
    by (simp add: addRemedy_def initialState_def)
  from a b remedies_unique [of january_2024 "[]" "''Ginger''" sample_state]
  show ?thesis
    by simp
qed

end
